theory Spec2Isabelle
  imports Complex_Main
begin

section \<open>Errors and tensors\<close>

text \<open>
  The layers of \<^verbatim>\<open>IOB/layers.py\<close> are Keras layers whose \<^verbatim>\<open>call\<close> methods run
  eagerly on TensorFlow tensors. Every exception that the Python code or a tensor
  operation can raise is a value of \<open>error\<close>; a computation that can raise returns
  \<open>error + 'a\<close>, with \<open>Inl\<close> for the exception.
\<close>

datatype error =
    AssertionError
  | AttributeError
  | IndexError
  | TypeError
  | ValueError
  | InvalidArgumentError

definition ebind :: "error + 'a \<Rightarrow> ('a \<Rightarrow> error + 'b) \<Rightarrow> error + 'b" where
  "ebind m f = (case m of Inl e \<Rightarrow> Inl e | Inr x \<Rightarrow> f x)"

text \<open>
  A dense tensor is its shape and its elements in row-major order. The element type is
  \<open>real\<close>: float32 arithmetic is idealised, rounding is not modelled.
\<close>

record tensor =
  shape :: "nat list"
  elems :: "real list"

definition wf_tensor :: "tensor \<Rightarrow> bool" where
  "wf_tensor t \<longleftrightarrow> length (elems t) = prod_list (shape t)"

text \<open>\<^verbatim>\<open>t.shape[i]\<close> for a non-negative \<open>i\<close>: out of range raises IndexError.\<close>

definition shape_getitem :: "nat list \<Rightarrow> nat \<Rightarrow> error + nat" where
  "shape_getitem s i = (if i < length s then Inr (s ! i) else Inl IndexError)"

text \<open>\<^verbatim>\<open>tf.squeeze(t)\<close> without an axis removes every dimension of size 1.\<close>

definition tf_squeeze :: "tensor \<Rightarrow> tensor" where
  "tf_squeeze t = t\<lparr>shape := filter (\<lambda>d. d \<noteq> 1) (shape t)\<rparr>"

text \<open>\<^verbatim>\<open>tf.eye(n)\<close>: the \<open>n \<times> n\<close> identity.\<close>

definition tf_eye :: "nat \<Rightarrow> tensor" where
  "tf_eye n = \<lparr>shape = [n, n],
               elems = map (\<lambda>p. if p div n = p mod n then 1 else 0) [0..<n * n]\<rparr>"

text \<open>Row-major multi-indices: \<open>unravel s p\<close> is the index of flat position \<open>p\<close>.\<close>

fun unravel :: "nat list \<Rightarrow> nat \<Rightarrow> nat list" where
  "unravel [] p = []"
| "unravel (d # ds) p = (p div prod_list ds) # unravel ds (p mod prod_list ds)"

fun ravel :: "nat list \<Rightarrow> nat list \<Rightarrow> nat" where
  "ravel (d # ds) (i # is) = i * prod_list ds + ravel ds is"
| "ravel _ _ = 0"

text \<open>
  Broadcasting of two shapes, aligned at the last dimension: two dimensions are
  compatible when they are equal or one of them is 1.
\<close>

fun broadcast_rev :: "nat list \<Rightarrow> nat list \<Rightarrow> error + nat list" where
  "broadcast_rev [] ys = Inr ys"
| "broadcast_rev (x # xs) [] = Inr (x # xs)"
| "broadcast_rev (x # xs) (y # ys) =
     (if x = y \<or> y = 1 then ebind (broadcast_rev xs ys) (\<lambda>r. Inr (x # r))
      else if x = 1 then ebind (broadcast_rev xs ys) (\<lambda>r. Inr (y # r))
      else Inl InvalidArgumentError)"

definition broadcast_shapes :: "nat list \<Rightarrow> nat list \<Rightarrow> error + nat list" where
  "broadcast_shapes sa sb = ebind (broadcast_rev (rev sa) (rev sb)) (\<lambda>r. Inr (rev r))"

text \<open>The index into an operand of shape \<open>s\<close> that a broadcast index \<open>idx\<close> reads.\<close>

definition bcast_index :: "nat list \<Rightarrow> nat list \<Rightarrow> nat list" where
  "bcast_index s idx =
     map2 (\<lambda>d i. if d = 1 then 0 else i) s (drop (length idx - length s) idx)"

text \<open>
  Element \<open>(i, j)\<close> of the product of a \<open>n \<times> k\<close> matrix stored in \<open>xs\<close> from offset
  \<open>aoff\<close> and a \<open>k \<times> m\<close> matrix stored in \<open>ys\<close> from offset \<open>boff\<close>.
\<close>

definition dot_entry ::
  "real list \<Rightarrow> nat \<Rightarrow> real list \<Rightarrow> nat \<Rightarrow> nat \<Rightarrow> nat \<Rightarrow> nat \<Rightarrow> nat \<Rightarrow> real" where
  "dot_entry xs aoff ys boff k m i j =
     sum_list (map (\<lambda>l. xs ! (aoff + i * k + l) * ys ! (boff + l * m + j)) [0..<k])"

text \<open>
  \<^verbatim>\<open>tf.matmul(a, b)\<close>: both operands have rank at least 2, the inner dimensions agree,
  and the leading (batch) dimensions broadcast; anything else raises
  InvalidArgumentError.
\<close>

definition tf_matmul :: "tensor \<Rightarrow> tensor \<Rightarrow> error + tensor" where
  "tf_matmul a b =
     (let sa = shape a; sb = shape b; ra = length sa; rb = length sb in
      if ra < 2 \<or> rb < 2 then Inl InvalidArgumentError
      else
        let n = sa ! (ra - 2); k = sa ! (ra - 1); k' = sb ! (rb - 2); m = sb ! (rb - 1);
            ba = take (ra - 2) sa; bb = take (rb - 2) sb in
        if k \<noteq> k' then Inl InvalidArgumentError
        else ebind (broadcast_shapes ba bb) (\<lambda>bs.
          Inr \<lparr>shape = bs @ [n, m],
               elems = map (\<lambda>p.
                   let idx = unravel bs (p div (n * m)); r = p mod (n * m) in
                   dot_entry (elems a) (ravel ba (bcast_index ba idx) * (n * k))
                             (elems b) (ravel bb (bcast_index bb idx) * (k * m))
                             k m (r div m) (r mod m))
                 [0..<prod_list bs * (n * m)]\<rparr>))"

section \<open>GraphOperator\<close>

text \<open>
  \<^verbatim>\<open>GraphOperator.__init__\<close> stores \<^verbatim>\<open>power\<close> and nothing else. A \<^verbatim>\<open>call\<close> returns
  its result together with the layer object as the call leaves it.
\<close>

record GraphOperator =
  power :: int

definition GraphOperator_init :: "int \<Rightarrow> GraphOperator" where
  "GraphOperator_init p = \<lparr>power = p\<rparr>"

definition GraphOperator_call ::
  "GraphOperator \<Rightarrow> tensor \<Rightarrow> (error + tensor list) \<times> GraphOperator" where
  "GraphOperator_call self adj =
     (ebind (shape_getitem (shape adj) 1) (\<lambda>d1.
      ebind (shape_getitem (shape adj) 2) (\<lambda>d2.
      if d1 \<noteq> d2 then Inl AssertionError
      else
        let adj = tf_squeeze adj in
        ebind (shape_getitem (shape adj) 0) (\<lambda>n.
        let A0 = tf_eye n in
        ebind (tf_matmul adj adj) (\<lambda>A1.
        ebind (tf_matmul A1 adj) (\<lambda>A2.
        Inr [A0, A1, A2]))))), self)"

section \<open>Further tensor operations\<close>

text \<open>\<^verbatim>\<open>tf.zeros_like(t, dtype=tf.float32)\<close>, \<^verbatim>\<open>tf.reshape(t, [-1])\<close>,
  \<^verbatim>\<open>tf.reshape(t, s)\<close> and \<^verbatim>\<open>tf.nn.relu(t)\<close>.\<close>

definition tf_zeros_like :: "tensor \<Rightarrow> tensor" where
  "tf_zeros_like t = \<lparr>shape = shape t, elems = map (\<lambda>x. 0) (elems t)\<rparr>"

definition tf_reshape_flat :: "tensor \<Rightarrow> tensor" where
  "tf_reshape_flat t = \<lparr>shape = [prod_list (shape t)], elems = elems t\<rparr>"

definition tf_reshape :: "tensor \<Rightarrow> nat list \<Rightarrow> error + tensor" where
  "tf_reshape t s =
     (if prod_list s = prod_list (shape t) then Inr \<lparr>shape = s, elems = elems t\<rparr>
      else Inl InvalidArgumentError)"

definition tf_relu :: "tensor \<Rightarrow> tensor" where
  "tf_relu t = t\<lparr>elems := map (max 0) (elems t)\<rparr>"

text \<open>
  An elementwise binary operation (\<^verbatim>\<open>a * b\<close>, \<^verbatim>\<open>a - b\<close>, \<^verbatim>\<open>tf.math.add(a, b)\<close>) with
  broadcasting; incompatible shapes raise InvalidArgumentError.
\<close>

definition bcast_op :: "(real \<Rightarrow> real \<Rightarrow> real) \<Rightarrow> tensor \<Rightarrow> tensor \<Rightarrow> error + tensor" where
  "bcast_op f a b =
     ebind (broadcast_shapes (shape a) (shape b)) (\<lambda>rs.
       Inr \<lparr>shape = rs,
            elems = map (\<lambda>p.
                let idx = unravel rs p in
                f (elems a ! ravel (shape a) (bcast_index (shape a) idx))
                  (elems b ! ravel (shape b) (bcast_index (shape b) idx)))
              [0..<prod_list rs]\<rparr>)"

definition tf_multiply :: "tensor \<Rightarrow> tensor \<Rightarrow> error + tensor" where
  "tf_multiply a b = bcast_op (\<lambda>x y. x * y) a b"

definition tf_subtract :: "tensor \<Rightarrow> tensor \<Rightarrow> error + tensor" where
  "tf_subtract a b = bcast_op (\<lambda>x y. x - y) a b"

definition tf_add :: "tensor \<Rightarrow> tensor \<Rightarrow> error + tensor" where
  "tf_add a b = bcast_op (\<lambda>x y. x + y) a b"

text \<open>
  \<^verbatim>\<open>t[i]\<close> for a non-negative \<open>i\<close>: the \<open>i\<close>-th slice along the first axis. A scalar
  has no axis to index and an index past the first dimension is out of bounds; both
  raise InvalidArgumentError.
\<close>

definition subtensor :: "tensor \<Rightarrow> nat \<Rightarrow> tensor" where
  "subtensor t i =
     \<lparr>shape = tl (shape t),
      elems = take (prod_list (tl (shape t))) (drop (i * prod_list (tl (shape t))) (elems t))\<rparr>"

definition tf_getitem :: "tensor \<Rightarrow> nat \<Rightarrow> error + tensor" where
  "tf_getitem t i =
     (case shape t of
        [] \<Rightarrow> Inl InvalidArgumentError
      | d # ds \<Rightarrow> if i < d then Inr (subtensor t i) else Inl InvalidArgumentError)"

text \<open>
  Iterating a tensor yields its slices along the first axis; iterating a scalar tensor
  raises TypeError.
\<close>

definition tensor_iter :: "tensor \<Rightarrow> error + tensor list" where
  "tensor_iter t =
     (case shape t of
        [] \<Rightarrow> Inl TypeError
      | d # ds \<Rightarrow> Inr (map (subtensor t) [0..<d]))"

text \<open>
  The truth value of \<^verbatim>\<open>t == c\<close> in an \<^verbatim>\<open>if\<close>: the comparison is elementwise, and
  the resulting boolean tensor converts to \<open>bool\<close> only when it has at most one element
  (no element counting as false); with more elements the conversion raises ValueError.
\<close>

definition tensor_eq_truth :: "tensor \<Rightarrow> real \<Rightarrow> error + bool" where
  "tensor_eq_truth t c =
     (case map (\<lambda>x. x = c) (elems t) of
        [] \<Rightarrow> Inr False
      | [b] \<Rightarrow> Inr b
      | _ \<Rightarrow> Inl ValueError)"

text \<open>\<^verbatim>\<open>tf.norm(t)\<close>: the Euclidean norm of all elements, a scalar.\<close>

definition tf_norm :: "tensor \<Rightarrow> real" where
  "tf_norm t = sqrt (sum_list (map (\<lambda>x. x * x) (elems t)))"

text \<open>
  \<^verbatim>\<open>new_adj[ik, jk] = v\<close>. \<^verbatim>\<open>new_adj\<close> is the tensor made by \<^verbatim>\<open>tf.zeros_like\<close>, and
  a TensorFlow tensor is immutable: item assignment raises TypeError, whatever the
  indices and the value.
\<close>

definition tensor_setitem :: "tensor \<Rightarrow> nat \<Rightarrow> nat \<Rightarrow> real \<Rightarrow> error + tensor" where
  "tensor_setitem t i j v = Inl TypeError"

text \<open>
  For comparison only, item assignment as a mutable NumPy array does it: the slice
  \<open>[i, j]\<close> is overwritten with \<open>v\<close>, and an index out of bounds raises IndexError.
  The layer never runs on such an array.
\<close>

definition ndarray_setitem :: "tensor \<Rightarrow> nat \<Rightarrow> nat \<Rightarrow> real \<Rightarrow> error + tensor" where
  "ndarray_setitem t i j v =
     (case shape t of
        d0 # d1 # ds \<Rightarrow>
          if i < d0 \<and> j < d1
          then Inr (t\<lparr>elems := map (\<lambda>p. if p div prod_list ds = i * d1 + j then v
                                           else elems t ! p) [0..<length (elems t)]\<rparr>)
          else Inl IndexError
      | _ \<Rightarrow> Inl IndexError)"

text \<open>
  \<^verbatim>\<open>tf.matmul(x)\<close> with a single positional argument: the required operand \<^verbatim>\<open>b\<close> is
  missing, so the call raises TypeError once its argument has been evaluated.
\<close>

definition tf_matmul_1 :: "tensor \<Rightarrow> error + tensor" where
  "tf_matmul_1 a = Inl TypeError"

text \<open>A \<^verbatim>\<open>for\<close> loop over a list that stops at the first exception.\<close>

fun efold :: "('s \<Rightarrow> 'x \<Rightarrow> error + 's) \<Rightarrow> 'x list \<Rightarrow> 's \<Rightarrow> error + 's" where
  "efold f [] s = Inr s"
| "efold f (x # xs) s = (case f s x of Inl e \<Rightarrow> Inl e | Inr s' \<Rightarrow> efold f xs s')"

section \<open>Adjacency\<close>

text \<open>
  The attributes of a built \<^verbatim>\<open>Adjacency\<close> layer: those set by \<^verbatim>\<open>__init__\<close> and the
  six weights added by \<^verbatim>\<open>build\<close>. The layer has no attribute \<^verbatim>\<open>w0\<close>.
\<close>

record Adjacency =
  max_nodes :: nat
  n_features :: nat
  input_units :: nat
  w0_1 :: tensor
  w0_2 :: tensor
  w1_1 :: tensor
  w1_2 :: tensor
  w2_1 :: tensor
  w2_2 :: tensor

definition Adjacency_built :: "Adjacency \<Rightarrow> bool" where
  "Adjacency_built self \<longleftrightarrow>
     input_units self = max_nodes self * max_nodes self \<and>
     list_all (\<lambda>w. shape w = [input_units self, input_units self] \<and> wf_tensor w)
       [w0_1 self, w0_2 self, w1_1 self, w1_2 self, w2_1 self, w2_2 self]"

text \<open>
  The body of the innermost loop of \<^verbatim>\<open>_learn_adjacencies\<close>, for the entry \<open>adj_ij\<close> at
  row \<open>ik\<close> and column \<open>jk\<close>. The item assignment is a parameter, so that the loop can
  be read with either kind of array; the layer uses \<open>tensor_setitem\<close>.
\<close>

definition learn_cell ::
  "(tensor \<Rightarrow> nat \<Rightarrow> nat \<Rightarrow> real \<Rightarrow> error + tensor) \<Rightarrow> tensor \<Rightarrow> tensor \<Rightarrow> nat \<Rightarrow> nat \<Rightarrow> tensor
     \<Rightarrow> error + tensor" where
  "learn_cell setitem node_vec new_adj ik jk adj_ij =
     ebind (tensor_eq_truth adj_ij 0) (\<lambda>is0.
       if is0 then setitem new_adj ik jk 0
       else ebind (tensor_eq_truth adj_ij 1) (\<lambda>is1.
         if is1 then
           ebind (tf_getitem node_vec ik) (\<lambda>a.
           ebind (tf_getitem node_vec jk) (\<lambda>b.
           ebind (tf_subtract a b) (\<lambda>d.
           setitem new_adj ik jk (tf_norm d))))
         else Inr new_adj))"

definition learn_row ::
  "(tensor \<Rightarrow> nat \<Rightarrow> nat \<Rightarrow> real \<Rightarrow> error + tensor) \<Rightarrow> tensor \<Rightarrow> tensor \<Rightarrow> nat \<Rightarrow> tensor
     \<Rightarrow> error + tensor" where
  "learn_row setitem node_vec new_adj ik i =
     ebind (tensor_iter i) (\<lambda>js.
       efold (\<lambda>acc (jk, j). learn_cell setitem node_vec acc ik jk j)
         (List.enumerate 0 js) new_adj)"

definition learn_adjacencies_with ::
  "(tensor \<Rightarrow> nat \<Rightarrow> nat \<Rightarrow> real \<Rightarrow> error + tensor) \<Rightarrow> tensor \<Rightarrow> tensor \<Rightarrow> error + tensor" where
  "learn_adjacencies_with setitem adj node_vec =
     (let new_adj = tf_zeros_like adj in
      ebind (tensor_iter adj) (\<lambda>rows.
        efold (\<lambda>acc (ik, i). learn_row setitem node_vec acc ik i)
          (List.enumerate 0 rows) new_adj))"

text \<open>\<^verbatim>\<open>Adjacency._learn_adjacencies\<close>.\<close>

definition learn_adjacencies :: "tensor \<Rightarrow> tensor \<Rightarrow> error + tensor" where
  "learn_adjacencies adj node_vec = learn_adjacencies_with tensor_setitem adj node_vec"

text \<open>
  The two shape assertions inside \<^verbatim>\<open>try\<close>. The first one evaluates
  \<^verbatim>\<open>adj_list[0].shape[0]\<close> and then \<^verbatim>\<open>self.w0.shape[0]\<close>; the layer has no
  attribute \<^verbatim>\<open>w0\<close>, so the lookup raises AttributeError before anything is compared.
\<close>

definition Adjacency_shape_asserts :: "Adjacency \<Rightarrow> tensor list \<Rightarrow> error + unit" where
  "Adjacency_shape_asserts self adj_list =
     ebind (shape_getitem (shape (adj_list ! 0)) 0) (\<lambda>rows. Inl AttributeError)"

text \<open>One hop of the forward pass: \<^verbatim>\<open>tf.matmul(adj * w1)\<close>, relu, \<^verbatim>\<open>tf.matmul(adj * w2)\<close>,
  relu.\<close>

definition Adjacency_mlp :: "tensor \<Rightarrow> tensor \<Rightarrow> tensor \<Rightarrow> error + tensor" where
  "Adjacency_mlp adj w_1 w_2 =
     ebind (tf_multiply adj w_1) (\<lambda>prod1.
     ebind (tf_matmul_1 prod1) (\<lambda>adj.
     let adj = tf_relu adj in
     ebind (tf_multiply adj w_2) (\<lambda>prod2.
     ebind (tf_matmul_1 prod2) (\<lambda>adj.
     Inr (tf_relu adj)))))"

text \<open>The statements of \<^verbatim>\<open>Adjacency.call\<close> after the assertions.\<close>

definition Adjacency_forward :: "Adjacency \<Rightarrow> tensor list \<Rightarrow> tensor \<Rightarrow> error + tensor list" where
  "Adjacency_forward self adj_list node_vec =
     (let adj_0 = tf_squeeze (adj_list ! 0);
          adj_1 = tf_squeeze (adj_list ! 1);
          adj_2 = tf_squeeze (adj_list ! 2);
          node_vec = tf_squeeze node_vec;
          shp = shape adj_0 in
      ebind (learn_adjacencies adj_0 node_vec) (\<lambda>adj_0.
      ebind (learn_adjacencies adj_1 node_vec) (\<lambda>adj_1.
      ebind (learn_adjacencies adj_2 node_vec) (\<lambda>adj_2.
      let adj_0 = tf_reshape_flat adj_0;
          adj_1 = tf_reshape_flat adj_1;
          adj_2 = tf_reshape_flat adj_2 in
      ebind (Adjacency_mlp adj_0 (w0_1 self) (w0_2 self)) (\<lambda>adj_0.
      ebind (Adjacency_mlp adj_1 (w1_1 self) (w1_2 self)) (\<lambda>adj_1.
      ebind (Adjacency_mlp adj_2 (w2_1 self) (w2_2 self)) (\<lambda>adj_2.
      ebind (tf_reshape adj_0 shp) (\<lambda>adj_0.
      ebind (tf_reshape adj_1 shp) (\<lambda>adj_1.
      ebind (tf_reshape adj_2 shp) (\<lambda>adj_2.
      Inr [adj_0, adj_1, adj_2]))))))))))"

text \<open>
  \<^verbatim>\<open>Adjacency.call\<close>: the result, the layer as the call leaves it, and the lines the
  call prints. The list \<open>inputs\<close> holds the adjacency operators followed by the node
  feature matrix. A bare \<^verbatim>\<open>except\<close> catches whatever the shape assertions raise and
  prints one line.
\<close>

definition Adjacency_call ::
  "Adjacency \<Rightarrow> tensor list \<Rightarrow> (error + tensor list) \<times> Adjacency \<times> string list" where
  "Adjacency_call self inputs =
     (if inputs = [] then (Inl IndexError, self, [])
      else
        let adj_list = butlast inputs; node_vec = last inputs in
        if length adj_list \<noteq> 3 then (Inl AssertionError, self, [])
        else
          let printed = (case Adjacency_shape_asserts self adj_list of
                           Inl e \<Rightarrow> [''Error 87 layer'']
                         | Inr u \<Rightarrow> [])
          in (Adjacency_forward self adj_list node_vec, self, printed))"

section \<open>GNN\<close>

record GNN =
  n_features :: nat
  n_nodes :: nat
  w0 :: tensor
  w1 :: tensor
  w2 :: tensor

text \<open>
  \<^verbatim>\<open>GNN.call\<close>. Unpacking \<open>inputs\<close> into four names raises ValueError when it does not
  hold exactly four tensors.
\<close>

definition GNN_call :: "GNN \<Rightarrow> tensor list \<Rightarrow> (error + tensor) \<times> GNN" where
  "GNN_call self inputs =
     (case inputs of
        [X, learned_A0, learned_A1, learned_A2] \<Rightarrow>
          (ebind (ebind (tf_matmul learned_A0 X) (\<lambda>m. tf_matmul m (w0 self))) (\<lambda>product_1.
           ebind (ebind (tf_matmul learned_A1 X) (\<lambda>m. tf_matmul m (w1 self))) (\<lambda>product_2.
           ebind (ebind (tf_matmul learned_A2 X) (\<lambda>m. tf_matmul m (w2 self))) (\<lambda>product_3.
           ebind (ebind (tf_add product_1 product_2) (\<lambda>s. tf_add s product_3)) (\<lambda>X.
           Inr (tf_relu X))))), self)
      | _ \<Rightarrow> (Inl ValueError, self))"

section \<open>The products of the convolution, entry by entry\<close>

text \<open>
  Entry \<open>(i, j)\<close> of \<^verbatim>\<open>A @ X @ w\<close> written as the sums of the two matrix products, for
  \<open>A\<close> of shape \<open>[N, N]\<close>, \<open>X\<close> of shape \<open>[N, F]\<close> and \<open>w\<close> of shape \<open>[F, F]\<close>. This is the
  reading of \<^verbatim>\<open>learned_ops[k] @ node_vec @ w_k\<close> that \<open>GNN_call\<close> is compared with.
\<close>

definition product_entry ::
  "tensor \<Rightarrow> tensor \<Rightarrow> tensor \<Rightarrow> nat \<Rightarrow> nat \<Rightarrow> nat \<Rightarrow> nat \<Rightarrow> real" where
  "product_entry A X w N F i j =
     (\<Sum>l<F. (\<Sum>k<N. elems A ! (i * N + k) * elems X ! (k * F + l)) * elems w ! (l * F + j))"

section \<open>Facts about the tensor operations\<close>

lemma ebind_simps [simp]:
  "ebind (Inl e) f = Inl e"
  "ebind (Inr x) f = f x"
  by (simp_all add: ebind_def)

lemma broadcast_rev_same: "broadcast_rev xs xs = Inr xs"
  by (induction xs) simp_all

lemma broadcast_shapes_same: "broadcast_shapes s s = Inr s"
  by (simp add: broadcast_shapes_def broadcast_rev_same)

lemma broadcast_shapes_Nil: "broadcast_shapes [] [] = Inr []"
  by (simp add: broadcast_shapes_def)

lemma length_unravel: "length (unravel s p) = length s"
  by (induction s arbitrary: p) simp_all

lemma ravel_unravel:
  "p < prod_list s \<Longrightarrow> ravel s (bcast_index s (unravel s p)) = p"
proof (induction s arbitrary: p)
  case Nil
  then show ?case by (simp add: bcast_index_def)
next
  case (Cons d ds)
  have pos: "0 < prod_list ds" using Cons.prems by (cases "prod_list ds = 0") simp_all
  have ih: "ravel ds (bcast_index ds (unravel ds (p mod prod_list ds))) = p mod prod_list ds"
    using Cons.IH [of "p mod prod_list ds"] pos by simp
  have hd: "(if d = 1 then 0 else p div prod_list ds) = p div prod_list ds"
    using Cons.prems by auto
  show ?case
    using ih hd by (simp add: bcast_index_def length_unravel)
qed

lemma flat_index_bound: "i < n \<Longrightarrow> j < m \<Longrightarrow> i * m + j < n * (m::nat)"
proof -
  assume a: "i < n" "j < m"
  then have "i * m + j < i * m + m" by simp
  also have "\<dots> = Suc i * m" by simp
  also have "\<dots> \<le> n * m" using a by (intro mult_le_mono1) simp
  finally show ?thesis .
qed

lemma tf_matmul_2d:
  assumes "shape a = [n, k]" and "shape b = [k, m]"
  shows "tf_matmul a b =
    Inr \<lparr>shape = [n, m],
         elems = map (\<lambda>p. dot_entry (elems a) 0 (elems b) 0 k m (p div m) (p mod m)) [0..<n * m]\<rparr>"
proof -
  have "map (\<lambda>p. dot_entry (elems a) 0 (elems b) 0 k m (p mod (n * m) div m) (p mod (n * m) mod m)) [0..<n * m]
      = map (\<lambda>p. dot_entry (elems a) 0 (elems b) 0 k m (p div m) (p mod m)) [0..<n * m]"
    by (rule map_cong) simp_all
  then show ?thesis
    using assms by (simp add: tf_matmul_def Let_def broadcast_shapes_Nil bcast_index_def)
qed

lemma bcast_op_same_shape:
  assumes "shape a = s" and "shape b = s"
  shows "bcast_op f a b = Inr \<lparr>shape = s, elems = map (\<lambda>p. f (elems a ! p) (elems b ! p)) [0..<prod_list s]\<rparr>"
proof -
  have "map (\<lambda>p. f (elems a ! ravel s (bcast_index s (unravel s p)))
                   (elems b ! ravel s (bcast_index s (unravel s p)))) [0..<prod_list s]
      = map (\<lambda>p. f (elems a ! p) (elems b ! p)) [0..<prod_list s]"
    by (rule map_cong) (simp_all add: ravel_unravel)
  then show ?thesis
    using assms by (simp add: bcast_op_def broadcast_shapes_same Let_def)
qed

lemma sum_list_upt: "sum_list (map f [0..<k]) = (\<Sum>l<k. (f l :: real))"
  by (simp add: interv_sum_list_conv_sum_set_nat atLeast0LessThan)

lemma squeeze_batch: "N \<noteq> 1 \<Longrightarrow> shape adj = [1, N, N] \<Longrightarrow> shape (tf_squeeze adj) = [N, N]"
  by (simp add: tf_squeeze_def)

lemma elems_squeeze: "elems (tf_squeeze adj) = elems adj"
  by (simp add: tf_squeeze_def)

text \<open>
  A single \<open>N \<times> N\<close> matrix reaches \<open>GraphOperator_call\<close> with its batch axis, as a tensor of
  shape \<open>[1, N, N]\<close>. For every \<open>N\<close> other than 1 the call returns the identity, the
  product of the matrix with itself and that product times the matrix again.
\<close>

lemma GraphOperator_call_powers:
  assumes "shape adj = [1, N, N]" and "N \<noteq> 1"
  shows "\<exists>A1 A2. fst (GraphOperator_call self adj) = Inr [tf_eye N, A1, A2]
           \<and> tf_matmul (tf_squeeze adj) (tf_squeeze adj) = Inr A1
           \<and> tf_matmul A1 (tf_squeeze adj) = Inr A2
           \<and> shape A1 = [N, N] \<and> shape A2 = [N, N]
           \<and> (\<forall>i<N. \<forall>j<N. elems A1 ! (i * N + j) = (\<Sum>l<N. elems adj ! (i * N + l) * elems adj ! (l * N + j)))
           \<and> (\<forall>i<N. \<forall>j<N. elems A2 ! (i * N + j) = (\<Sum>l<N. elems A1 ! (i * N + l) * elems adj ! (l * N + j)))"
proof -
  let ?sq = "tf_squeeze adj"
  have sq: "shape ?sq = [N, N]" using assms by (simp add: squeeze_batch)
  define A1 where "A1 = \<lparr>shape = [N, N],
         elems = map (\<lambda>p. dot_entry (elems ?sq) 0 (elems ?sq) 0 N N (p div N) (p mod N)) [0..<N * N]\<rparr>"
  define A2 where "A2 = \<lparr>shape = [N, N],
         elems = map (\<lambda>p. dot_entry (elems A1) 0 (elems ?sq) 0 N N (p div N) (p mod N)) [0..<N * N]\<rparr>"
  have m1: "tf_matmul ?sq ?sq = Inr A1" unfolding A1_def by (rule tf_matmul_2d [OF sq sq])
  have s1: "shape A1 = [N, N]" by (simp add: A1_def)
  have m2: "tf_matmul A1 ?sq = Inr A2" unfolding A2_def by (rule tf_matmul_2d [OF s1 sq])
  have call: "fst (GraphOperator_call self adj) = Inr [tf_eye N, A1, A2]"
    using assms sq m1 m2 by (simp add: GraphOperator_call_def shape_getitem_def Let_def)
  have e1: "elems A1 ! (i * N + j) = (\<Sum>l<N. elems adj ! (i * N + l) * elems adj ! (l * N + j))"
    if "i < N" "j < N" for i j
    using that flat_index_bound [OF that]
    by (simp add: A1_def dot_entry_def sum_list_upt elems_squeeze)
  have e2: "elems A2 ! (i * N + j) = (\<Sum>l<N. elems A1 ! (i * N + l) * elems adj ! (l * N + j))"
    if "i < N" "j < N" for i j
    using that flat_index_bound [OF that]
    by (simp add: A2_def dot_entry_def sum_list_upt elems_squeeze)
  show ?thesis
    using call m1 m2 s1 e1 e2 by (intro exI [of _ A1] exI [of _ A2]) (simp add: A2_def)
qed

text \<open>The first operator is the identity matrix.\<close>

lemma eye_entry: "i < N \<Longrightarrow> j < N \<Longrightarrow> elems (tf_eye N) ! (i * N + j) = (if i = j then 1 else 0)"
  using flat_index_bound [of i N j N] by (simp add: tf_eye_def)

lemma efold_skip: "(\<And>x. x \<in> set xs \<Longrightarrow> f s x = Inr s) \<Longrightarrow> efold f xs s = Inr s"
  by (induction xs) simp_all

lemma learn_cell_other:
  assumes "length (elems j) \<le> 1" and "\<And>v. v \<in> set (elems j) \<Longrightarrow> v \<noteq> 0 \<and> v \<noteq> 1"
  shows "learn_cell setitem node_vec acc ik jk j = Inr acc"
proof (cases "elems j")
  case Nil
  then show ?thesis by (simp add: learn_cell_def tensor_eq_truth_def)
next
  case (Cons x xs)
  then have "xs = []" using assms(1) by simp
  then show ?thesis using Cons assms(2) [of x] by (simp add: learn_cell_def tensor_eq_truth_def)
qed

lemma set_subtensor: "set (elems (subtensor t i)) \<subseteq> set (elems t)"
  by (auto simp: subtensor_def dest: in_set_takeD in_set_dropD)

lemma learn_row_other:
  assumes "shape i = [m]" and "\<And>v. v \<in> set (elems i) \<Longrightarrow> v \<noteq> 0 \<and> v \<noteq> 1"
  shows "learn_row setitem node_vec acc ik i = Inr acc"
proof -
  have "efold (\<lambda>acc (jk, j). learn_cell setitem node_vec acc ik jk j)
          (List.enumerate 0 (map (subtensor i) [0..<m])) acc = Inr acc"
  proof (rule efold_skip)
    fix x assume mem: "x \<in> set (List.enumerate 0 (map (subtensor i) [0..<m]))"
    have sx: "snd x = subtensor i (fst x)"
      using mem by (auto simp: in_set_enumerate_eq)
    have "length (elems (snd x)) \<le> 1"
      using assms(1) by (simp add: sx subtensor_def)
    moreover have "\<And>v. v \<in> set (elems (snd x)) \<Longrightarrow> v \<noteq> 0 \<and> v \<noteq> 1"
      using assms(2) set_subtensor unfolding sx by blast
    ultimately show "(case x of (jk, j) \<Rightarrow> learn_cell setitem node_vec acc ik jk j) = Inr acc"
      by (simp add: case_prod_beta learn_cell_other)
  qed
  then show ?thesis using assms(1) by (simp add: learn_row_def tensor_iter_def)
qed

lemma learn_with_other:
  assumes "shape adj = [n, m]" and "\<And>v. v \<in> set (elems adj) \<Longrightarrow> v \<noteq> 0 \<and> v \<noteq> 1"
  shows "learn_adjacencies_with setitem adj node_vec = Inr (tf_zeros_like adj)"
proof -
  have "efold (\<lambda>acc (ik, i). learn_row setitem node_vec acc ik i)
          (List.enumerate 0 (map (subtensor adj) [0..<n])) (tf_zeros_like adj) = Inr (tf_zeros_like adj)"
  proof (rule efold_skip)
    fix x assume mem: "x \<in> set (List.enumerate 0 (map (subtensor adj) [0..<n]))"
    have sx: "snd x = subtensor adj (fst x)"
      using mem by (auto simp: in_set_enumerate_eq)
    have "shape (snd x) = [m]"
      using assms(1) by (simp add: sx subtensor_def)
    moreover have "\<And>v. v \<in> set (elems (snd x)) \<Longrightarrow> v \<noteq> 0 \<and> v \<noteq> 1"
      using assms(2) set_subtensor unfolding sx by blast
    ultimately show "(case x of (ik, i) \<Rightarrow> learn_row setitem node_vec (tf_zeros_like adj) ik i) = Inr (tf_zeros_like adj)"
      by (simp add: case_prod_beta learn_row_other)
  qed
  then show ?thesis using assms(1) by (simp add: learn_adjacencies_with_def tensor_iter_def)
qed

lemma tf_matmul_2d_entries:
  assumes "shape a = [n, k]" and "shape b = [k, m]"
  shows "\<exists>c. tf_matmul a b = Inr c \<and> shape c = [n, m] \<and> length (elems c) = n * m
           \<and> (\<forall>i<n. \<forall>j<m. elems c ! (i * m + j) = (\<Sum>l<k. elems a ! (i * k + l) * elems b ! (l * m + j)))"
proof -
  have "\<And>i j. i < n \<Longrightarrow> j < m \<Longrightarrow> i * m + j < n * m" by (rule flat_index_bound)
  then show ?thesis
    unfolding tf_matmul_2d [OF assms] by (simp add: dot_entry_def sum_list_upt)
qed

lemma tf_add_same_shape:
  assumes "shape a = s" and "shape b = s"
  shows "\<exists>c. tf_add a b = Inr c \<and> shape c = s \<and> length (elems c) = prod_list s
           \<and> (\<forall>p<prod_list s. elems c ! p = elems a ! p + elems b ! p)"
  unfolding tf_add_def bcast_op_same_shape [OF assms] by simp

text \<open>
  C3. For a node feature matrix \<open>X\<close> of shape \<open>[N, F]\<close>, three learned adjacencies of shape
  \<open>[N, N]\<close> and the three weights of shape \<open>[F, F]\<close>, \<open>GNN_call\<close> returns a tensor of the
  shape of \<open>X\<close> whose entry \<open>(i, j)\<close> is the ReLU of the sum of the three products
  \<^verbatim>\<open>learned_A_k @ X @ w_k\<close> at \<open>(i, j)\<close>.
\<close>

theorem GNN_call_output:
  assumes X: "shape X = [N, F]"
      and A: "shape A0 = [N, N]" "shape A1 = [N, N]" "shape A2 = [N, N]"
      and W: "shape (w0 self) = [F, F]" "shape (w1 self) = [F, F]" "shape (w2 self) = [F, F]"
  shows "\<exists>Y. GNN_call self [X, A0, A1, A2] = (Inr Y, self) \<and> shape Y = shape X
           \<and> length (elems Y) = N * F
           \<and> (\<forall>i<N. \<forall>j<F. elems Y ! (i * F + j) =
                 max 0 (product_entry A0 X (w0 self) N F i j + product_entry A1 X (w1 self) N F i j
                        + product_entry A2 X (w2 self) N F i j))"
proof -
  obtain m0 where m0: "tf_matmul A0 X = Inr m0" "shape m0 = [N, F]"
    "\<forall>i<N. \<forall>l<F. elems m0 ! (i * F + l) = (\<Sum>k<N. elems A0 ! (i * N + k) * elems X ! (k * F + l))"
    using tf_matmul_2d_entries [OF A(1) X] by blast
  obtain m1 where m1: "tf_matmul A1 X = Inr m1" "shape m1 = [N, F]"
    "\<forall>i<N. \<forall>l<F. elems m1 ! (i * F + l) = (\<Sum>k<N. elems A1 ! (i * N + k) * elems X ! (k * F + l))"
    using tf_matmul_2d_entries [OF A(2) X] by blast
  obtain m2 where m2: "tf_matmul A2 X = Inr m2" "shape m2 = [N, F]"
    "\<forall>i<N. \<forall>l<F. elems m2 ! (i * F + l) = (\<Sum>k<N. elems A2 ! (i * N + k) * elems X ! (k * F + l))"
    using tf_matmul_2d_entries [OF A(3) X] by blast
  obtain p0 where p0: "tf_matmul m0 (w0 self) = Inr p0" "shape p0 = [N, F]"
    "\<forall>i<N. \<forall>j<F. elems p0 ! (i * F + j) = (\<Sum>l<F. elems m0 ! (i * F + l) * elems (w0 self) ! (l * F + j))"
    using tf_matmul_2d_entries [OF m0(2) W(1)] by blast
  obtain p1 where p1: "tf_matmul m1 (w1 self) = Inr p1" "shape p1 = [N, F]"
    "\<forall>i<N. \<forall>j<F. elems p1 ! (i * F + j) = (\<Sum>l<F. elems m1 ! (i * F + l) * elems (w1 self) ! (l * F + j))"
    using tf_matmul_2d_entries [OF m1(2) W(2)] by blast
  obtain p2 where p2: "tf_matmul m2 (w2 self) = Inr p2" "shape p2 = [N, F]"
    "\<forall>i<N. \<forall>j<F. elems p2 ! (i * F + j) = (\<Sum>l<F. elems m2 ! (i * F + l) * elems (w2 self) ! (l * F + j))"
    using tf_matmul_2d_entries [OF m2(2) W(3)] by blast
  obtain s1 where s1: "tf_add p0 p1 = Inr s1" "shape s1 = [N, F]"
    "\<forall>p<prod_list [N, F]. elems s1 ! p = elems p0 ! p + elems p1 ! p"
    using tf_add_same_shape [OF p0(2) p1(2)] by blast
  obtain s2 where s2: "tf_add s1 p2 = Inr s2" "shape s2 = [N, F]"
    "length (elems s2) = prod_list [N, F]"
    "\<forall>p<prod_list [N, F]. elems s2 ! p = elems s1 ! p + elems p2 ! p"
    using tf_add_same_shape [OF s1(2) p2(2)] by blast
  have call: "GNN_call self [X, A0, A1, A2] = (Inr (tf_relu s2), self)"
    by (simp add: GNN_call_def m0 m1 m2 p0 p1 p2 s1 s2)
  have entry: "elems (tf_relu s2) ! (i * F + j) =
                 max 0 (product_entry A0 X (w0 self) N F i j + product_entry A1 X (w1 self) N F i j
                        + product_entry A2 X (w2 self) N F i j)"
    if ij: "i < N" "j < F" for i j
  proof -
    have b: "i * F + j < N * F" using ij by (rule flat_index_bound)
    have q0: "elems p0 ! (i * F + j) = product_entry A0 X (w0 self) N F i j"
      using p0(3) m0(3) ij by (simp add: product_entry_def)
    have q1: "elems p1 ! (i * F + j) = product_entry A1 X (w1 self) N F i j"
      using p1(3) m1(3) ij by (simp add: product_entry_def)
    have q2: "elems p2 ! (i * F + j) = product_entry A2 X (w2 self) N F i j"
      using p2(3) m2(3) ij by (simp add: product_entry_def)
    have "elems (tf_relu s2) ! (i * F + j) = max 0 (elems s2 ! (i * F + j))"
      using b s2(3) by (simp add: tf_relu_def)
    also have "elems s2 ! (i * F + j) = elems p0 ! (i * F + j) + elems p1 ! (i * F + j) + elems p2 ! (i * F + j)"
      using b s1(3) s2(4) by simp
    finally show ?thesis by (simp add: q0 q1 q2)
  qed
  show ?thesis
    using call entry s2(2,3) X by (intro exI [of _ "tf_relu s2"]) (simp add: tf_relu_def)
qed


theorem GNN_call_output_witness:
  "\<exists>Y. GNN_call \<lparr>n_features = 1, n_nodes = 2,
                   w0 = \<lparr>shape = [1, 1], elems = [1]\<rparr>,
                   w1 = \<lparr>shape = [1, 1], elems = [2]\<rparr>,
                   w2 = \<lparr>shape = [1, 1], elems = [-5]\<rparr>\<rparr>
         [\<lparr>shape = [2, 1], elems = [1, 2]\<rparr>,
          \<lparr>shape = [2, 2], elems = [1, 0, 0, 1]\<rparr>,
          \<lparr>shape = [2, 2], elems = [0, 1, 1, 0]\<rparr>,
          \<lparr>shape = [2, 2], elems = [1, 0, 0, 1]\<rparr>]
       = (Inr Y, \<lparr>n_features = 1, n_nodes = 2,
                   w0 = \<lparr>shape = [1, 1], elems = [1]\<rparr>,
                   w1 = \<lparr>shape = [1, 1], elems = [2]\<rparr>,
                   w2 = \<lparr>shape = [1, 1], elems = [-5]\<rparr>\<rparr>)
       \<and> shape Y = [2, 1] \<and> length (elems Y) = 2"
  using GNN_call_output
    [of "\<lparr>shape = [2, 1], elems = [1, 2]\<rparr>" 2 1
        "\<lparr>shape = [2, 2], elems = [1, 0, 0, 1]\<rparr>"
        "\<lparr>shape = [2, 2], elems = [0, 1, 1, 0]\<rparr>"
        "\<lparr>shape = [2, 2], elems = [1, 0, 0, 1]\<rparr>"
        "\<lparr>n_features = 1, n_nodes = 2,
          w0 = \<lparr>shape = [1, 1], elems = [1]\<rparr>,
          w1 = \<lparr>shape = [1, 1], elems = [2]\<rparr>,
          w2 = \<lparr>shape = [1, 1], elems = [-5]\<rparr>\<rparr>"]
  by auto

section \<open>Properties of GraphOperator\<close>

text \<open>
  C1. The operators \<open>[A\<^sup>0, A\<^sup>1, A\<^sup>2]\<close> are not returned for every \<open>N\<close>. For the \<open>1 \<times> 1\<close>
  adjacency matrix, passed as a tensor of shape \<open>[1, 1, 1]\<close>, \<^verbatim>\<open>tf.squeeze\<close> removes all
  three axes, the squeezed tensor is a scalar, and \<^verbatim>\<open>adj.shape[0]\<close> raises IndexError:
  the call returns no operator list. (\<open>GraphOperator_call_powers\<close> covers every other \<open>N\<close>.)
\<close>

theorem GraphOperator_call_single_node:
  "fst (GraphOperator_call \<lparr>power = 2\<rparr> \<lparr>shape = [1, 1, 1], elems = [1]\<rparr>) = Inl IndexError"
  by (simp add: GraphOperator_call_def shape_getitem_def tf_squeeze_def)

text \<open>
  C5. A call on a tensor \<open>[b, n, m, \<dots>]\<close> whose second and third dimensions differ (for
  example a \<open>3 \<times> 4\<close> matrix with its batch axis) fails the squareness assertion: the
  call raises AssertionError and returns no operator list.
\<close>

theorem GraphOperator_call_non_square:
  assumes "shape adj = b # n # m # rest" and "n \<noteq> m"
  shows "fst (GraphOperator_call self adj) = Inl AssertionError"
  using assms by (simp add: GraphOperator_call_def shape_getitem_def)

theorem GraphOperator_call_non_square_witness:
  "shape \<lparr>shape = [1, 3, 4], elems = [0, 1, 0, 0, 1, 0, 1, 0, 0, 1, 0, 1]\<rparr> = [1, 3, 4]
   \<and> (3::nat) \<noteq> 4
   \<and> fst (GraphOperator_call \<lparr>power = 2\<rparr>
        \<lparr>shape = [1, 3, 4], elems = [0, 1, 0, 0, 1, 0, 1, 0, 0, 1, 0, 1]\<rparr>) = Inl AssertionError"
  using GraphOperator_call_non_square
    [of "\<lparr>shape = [1, 3, 4], elems = [0, 1, 0, 0, 1, 0, 1, 0, 0, 1, 0, 1]\<rparr>" 1 3 4 "[]"
        "\<lparr>power = 2\<rparr>"]
  by simp

text \<open>
  C8. The result of \<open>GraphOperator_call\<close> is the same for any two values of \<^verbatim>\<open>power\<close>, and
  a call that returns, returns exactly three operators.
\<close>

theorem GraphOperator_call_power_inert:
  "fst (GraphOperator_call (GraphOperator_init p) adj)
     = fst (GraphOperator_call (GraphOperator_init q) adj)
   \<and> (\<forall>ops. fst (GraphOperator_call (GraphOperator_init p) adj) = Inr ops \<longrightarrow> length ops = 3)"
  by (auto simp: GraphOperator_call_def ebind_def Let_def split: sum.splits if_splits)

theorem GraphOperator_call_power_inert_witness:
  "fst (GraphOperator_call (GraphOperator_init 2) \<lparr>shape = [1, 2, 2], elems = [0, 1, 1, 0]\<rparr>)
     = fst (GraphOperator_call (GraphOperator_init 7) \<lparr>shape = [1, 2, 2], elems = [0, 1, 1, 0]\<rparr>)
   \<and> (\<exists>ops. fst (GraphOperator_call (GraphOperator_init 2)
                 \<lparr>shape = [1, 2, 2], elems = [0, 1, 1, 0]\<rparr>) = Inr ops \<and> length ops = 3)"
proof -
  let ?adj = "\<lparr>shape = [1, 2, 2], elems = [0, 1, 1, 0]\<rparr>"
  obtain A1 A2 where
    a: "fst (GraphOperator_call (GraphOperator_init 2) ?adj) = Inr [tf_eye 2, A1, A2]"
    using GraphOperator_call_powers [of ?adj 2 "GraphOperator_init 2"] by auto
  have b: "fst (GraphOperator_call (GraphOperator_init 2) ?adj)
             = fst (GraphOperator_call (GraphOperator_init 7) ?adj)"
    using GraphOperator_call_power_inert [of 2 ?adj 7] by blast
  have c: "length [tf_eye 2, A1, A2] = 3"
    using GraphOperator_call_power_inert [of 2 ?adj 7] a by blast
  show ?thesis
    using a b c by blast
qed

section \<open>Properties of Adjacency\<close>

text \<open>
  C2. On the adjacency \<open>[[0, 1], [1, 0]]\<close> and the node features \<open>[[0, 0], [3, 4]]\<close> the
  distance transform does not return \<open>[[0, 5], [5, 0]]\<close>: the first entry is 0, the loop
  assigns \<^verbatim>\<open>new_adj[0, 0] = 0\<close> to the tensor made by \<^verbatim>\<open>tf.zeros_like\<close>, and the
  assignment raises TypeError.
\<close>

theorem learn_adjacencies_example_raises:
  "learn_adjacencies \<lparr>shape = [2, 2], elems = [0, 1, 1, 0]\<rparr>
     \<lparr>shape = [2, 2], elems = [0, 0, 3, 4]\<rparr> = Inl TypeError"
  by (simp add: learn_adjacencies_def learn_adjacencies_with_def tensor_iter_def learn_row_def
      learn_cell_def tensor_eq_truth_def tensor_setitem_def subtensor_def upt_rec
      enumerate_eq_zip tf_zeros_like_def)

lemma broadcast_rev_error: "broadcast_rev xs ys = Inl e \<Longrightarrow> e = InvalidArgumentError"
  by (induction xs ys rule: broadcast_rev.induct) (auto simp: ebind_def split: if_splits sum.splits)

lemma broadcast_shapes_error: "broadcast_shapes sa sb = Inl e \<Longrightarrow> e = InvalidArgumentError"
  by (auto simp: broadcast_shapes_def ebind_def split: sum.splits dest: broadcast_rev_error)

lemma bcast_op_error: "bcast_op f a b = Inl e \<Longrightarrow> e = InvalidArgumentError"
  by (auto simp: bcast_op_def ebind_def split: sum.splits dest: broadcast_shapes_error)

lemma tf_getitem_error: "tf_getitem t i = Inl e \<Longrightarrow> e = InvalidArgumentError"
  by (auto simp: tf_getitem_def split: list.splits if_splits)

lemma tensor_eq_truth_error: "tensor_eq_truth t c = Inl e \<Longrightarrow> e = ValueError"
  by (auto simp: tensor_eq_truth_def split: list.splits)

lemma tensor_iter_error: "tensor_iter t = Inl e \<Longrightarrow> e = TypeError"
  by (auto simp: tensor_iter_def split: list.splits)

lemma efold_error:
  "(\<And>s x e. f s x = Inl e \<Longrightarrow> P e) \<Longrightarrow> efold f xs s = Inl e \<Longrightarrow> P e"
  by (induction xs arbitrary: s) (auto split: sum.splits)

lemma learn_cell_error:
  "learn_cell tensor_setitem node_vec acc ik jk j = Inl e \<Longrightarrow>
     e \<in> {TypeError, ValueError, InvalidArgumentError}"
  by (auto simp: learn_cell_def ebind_def tensor_setitem_def tf_subtract_def
      split: sum.splits if_splits
      dest: tensor_eq_truth_error tf_getitem_error bcast_op_error)

lemma learn_row_error:
  "learn_row tensor_setitem node_vec acc ik i = Inl e \<Longrightarrow>
     e \<in> {TypeError, ValueError, InvalidArgumentError}"
proof -
  assume a: "learn_row tensor_setitem node_vec acc ik i = Inl e"
  show ?thesis
  proof (cases "tensor_iter i")
    case (Inl e')
    then show ?thesis using a tensor_iter_error [OF Inl] by (simp add: learn_row_def)
  next
    case (Inr js)
    then have "efold (\<lambda>acc (jk, j). learn_cell tensor_setitem node_vec acc ik jk j)
                 (List.enumerate 0 js) acc = Inl e"
      using a by (simp add: learn_row_def)
    then show ?thesis
      by (rule efold_error [rotated]) (auto dest: learn_cell_error)
  qed
qed

lemma learn_adjacencies_error:
  "learn_adjacencies adj node_vec = Inl e \<Longrightarrow> e \<in> {TypeError, ValueError, InvalidArgumentError}"
proof -
  assume a: "learn_adjacencies adj node_vec = Inl e"
  show ?thesis
  proof (cases "tensor_iter adj")
    case (Inl e')
    then show ?thesis
      using a tensor_iter_error [OF Inl]
      by (simp add: learn_adjacencies_def learn_adjacencies_with_def)
  next
    case (Inr rows)
    then have "efold (\<lambda>acc (ik, i). learn_row tensor_setitem node_vec acc ik i)
                 (List.enumerate 0 rows) (tf_zeros_like adj) = Inl e"
      using a by (simp add: learn_adjacencies_def learn_adjacencies_with_def)
    then show ?thesis
      by (rule efold_error [rotated]) (auto dest: learn_row_error)
  qed
qed

lemma Adjacency_mlp_error:
  "Adjacency_mlp adj w_1 w_2 = Inl e \<Longrightarrow> e \<in> {TypeError, ValueError, InvalidArgumentError}"
  by (auto simp: Adjacency_mlp_def ebind_def tf_matmul_1_def tf_multiply_def
      split: sum.splits dest: bcast_op_error)

lemma Adjacency_mlp_raises: "\<exists>e. Adjacency_mlp adj w_1 w_2 = Inl e"
  by (cases "tf_multiply adj w_1") (simp_all add: Adjacency_mlp_def tf_matmul_1_def)

lemma Adjacency_forward_error:
  "Adjacency_forward self adj_list node_vec = Inl e \<Longrightarrow>
     e \<in> {TypeError, ValueError, InvalidArgumentError}"
proof -
  have m: "Adjacency_mlp x w_1 w_2 \<noteq> Inr y" for x w_1 w_2 y
    using Adjacency_mlp_raises [of x w_1 w_2] by auto
  assume "Adjacency_forward self adj_list node_vec = Inl e"
  then show ?thesis
    by (auto simp: Adjacency_forward_def Let_def ebind_def m split: sum.splits
        dest!: learn_adjacencies_error Adjacency_mlp_error)
qed

text \<open>
  Once the list holds three operators, the call never raises AssertionError, it always
  prints the line of the \<^verbatim>\<open>except\<close> branch, and it never returns: each hop ends in
  \<^verbatim>\<open>tf.matmul\<close> with a single argument.
\<close>

lemma Adjacency_call_shape_check_never_raised:
  "length adj_list = 3 \<Longrightarrow>
     fst (Adjacency_call self (adj_list @ [node_vec])) \<noteq> Inl AssertionError"
  using Adjacency_forward_error [of self adj_list node_vec AssertionError]
  by (auto simp: Adjacency_call_def Let_def)

lemma Adjacency_call_prints:
  "length adj_list = 3 \<Longrightarrow>
     snd (snd (Adjacency_call self (adj_list @ [node_vec]))) = [''Error 87 layer'']"
  by (simp add: Adjacency_call_def Adjacency_shape_asserts_def shape_getitem_def)

lemma Adjacency_call_never_returns: "fst (Adjacency_call self inputs) \<noteq> Inr r"
proof -
  have m: "Adjacency_mlp x w_1 w_2 \<noteq> Inr y" for x w_1 w_2 y
    using Adjacency_mlp_raises [of x w_1 w_2] by auto
  have "Adjacency_forward self adj_list node_vec \<noteq> Inr r" for adj_list node_vec
    by (auto simp: Adjacency_forward_def Let_def ebind_def m split: sum.splits)
  then show ?thesis
    by (simp add: Adjacency_call_def Let_def)
qed

lemma upt_0_2: "[0..<2] = [0, 1]"
  by (simp add: upt_rec)

lemma upt_0_4: "[0..<4] = [0, 1, 2, 3]"
  by (simp add: upt_rec)

lemma sqrt_25: "sqrt 25 = 5"
  by (rule real_sqrt_unique) simp_all

text \<open>
  The loop of \<^verbatim>\<open>_learn_adjacencies\<close> itself is the one the docstring describes: run on
  an array that accepts item assignment it gives \<open>[[0, 5], [5, 0]]\<close> on the example of C2.
\<close>

lemma learn_adjacencies_with_ndarray_example:
  "learn_adjacencies_with ndarray_setitem \<lparr>shape = [2, 2], elems = [0, 1, 1, 0]\<rparr>
     \<lparr>shape = [2, 2], elems = [0, 0, 3, 4]\<rparr> = Inr \<lparr>shape = [2, 2], elems = [0, 5, 5, 0]\<rparr>"
  by (simp add: learn_adjacencies_with_def tensor_iter_def learn_row_def learn_cell_def
      tensor_eq_truth_def ndarray_setitem_def subtensor_def upt_0_2 upt_0_4 enumerate_eq_zip
      tf_zeros_like_def tf_getitem_def tf_subtract_def bcast_op_same_shape tf_norm_def sqrt_25)

lemma learn_adjacencies_identity_raises:
  "learn_adjacencies \<lparr>shape = [2, 2], elems = [1, 0, 0, 1]\<rparr>
     \<lparr>shape = [2, 2], elems = [0, 0, 3, 4]\<rparr> = Inl TypeError"
  by (simp add: learn_adjacencies_def learn_adjacencies_with_def tensor_iter_def learn_row_def
      learn_cell_def tensor_eq_truth_def tensor_setitem_def subtensor_def upt_0_2
      enumerate_eq_zip tf_zeros_like_def tf_getitem_def tf_subtract_def bcast_op_same_shape)

lemma efold_raises:
  assumes "x \<in> set xs" and "\<And>s. \<exists>e. f s x = Inl e"
  shows "\<exists>e. efold f xs s = Inl e"
  using assms(1)
proof (induction xs arbitrary: s)
  case Nil
  then show ?case by simp
next
  case (Cons a xs)
  show ?case
  proof (cases "f s a")
    case (Inl e)
    then show ?thesis by simp
  next
    case (Inr s')
    then have "a \<noteq> x" using assms(2) [of s] by auto
    then have "x \<in> set xs" using Cons.prems by simp
    then show ?thesis using Cons.IH [of s'] Inr by simp
  qed
qed

lemma learn_cell_raises:
  assumes "elems j = [v]" and "v = 0 \<or> v = 1"
  shows "\<exists>e. learn_cell tensor_setitem node_vec acc ik jk j = Inl e"
  using assms
  by (auto simp: learn_cell_def tensor_eq_truth_def tensor_setitem_def ebind_def split: sum.splits)

lemma take_1_drop: "n < length xs \<Longrightarrow> take (Suc 0) (drop n xs) = [xs ! n]"
  by (simp add: Cons_nth_drop_Suc [symmetric])

lemma learn_row_raises:
  assumes "shape i = [m]" and "length (elems i) = m" and "jk < m"
      and "elems i ! jk = 0 \<or> elems i ! jk = 1"
  shows "\<exists>e. learn_row tensor_setitem node_vec acc ik i = Inl e"
proof -
  let ?js = "map (subtensor i) [0..<m]"
  have mem: "(jk, subtensor i jk) \<in> set (List.enumerate 0 ?js)"
    using assms(3) by (simp add: in_set_enumerate_eq)
  have el: "elems (subtensor i jk) = [elems i ! jk]"
    using assms(1,2,3) by (simp add: subtensor_def take_1_drop)
  have "\<exists>e. efold (\<lambda>acc (jk, j). learn_cell tensor_setitem node_vec acc ik jk j)
               (List.enumerate 0 ?js) acc = Inl e"
    by (rule efold_raises [OF mem]) (simp add: learn_cell_raises [OF el assms(4)])
  then show ?thesis using assms(1) by (simp add: learn_row_def tensor_iter_def)
qed

text \<open>
  A well-formed matrix with an entry equal to 0 or 1 makes \<^verbatim>\<open>_learn_adjacencies\<close> raise:
  together with \<open>learn_with_other\<close>, the transform returns exactly when no entry is 0 or 1,
  and then it returns zeros.
\<close>

lemma learn_adjacencies_raises:
  assumes "shape adj = [n, m]" and "wf_tensor adj" and "p < n * m"
      and "elems adj ! p = 0 \<or> elems adj ! p = 1"
  shows "\<exists>e. learn_adjacencies adj node_vec = Inl e"
proof -
  have len: "length (elems adj) = n * m" using assms(1,2) by (simp add: wf_tensor_def)
  have mpos: "0 < m" using assms(3) by (cases m) simp_all
  let ?ik = "p div m" and ?jk = "p mod m"
  have ik: "?ik < n" using assms(3) mpos by (simp add: less_mult_imp_div_less)
  have jk: "?jk < m" using mpos by simp
  have "?ik * m + m \<le> n * m"
  proof -
    have "Suc ?ik * m \<le> n * m" using ik by (intro mult_le_mono1) simp
    then show ?thesis by simp
  qed
  then have rowlen: "length (elems (subtensor adj ?ik)) = m"
    using assms(1) len by (simp add: subtensor_def)
  have le: "?ik * m \<le> length (elems adj)"
    unfolding len using ik by (intro mult_le_mono1) simp
  have "drop (?ik * m) (elems adj) ! ?jk = elems adj ! (?ik * m + ?jk)"
    using le by (simp add: nth_drop)
  then have rowel: "elems (subtensor adj ?ik) ! ?jk = elems adj ! p"
    using assms(1) jk by (simp add: subtensor_def)
  have rowshape: "shape (subtensor adj ?ik) = [m]"
    using assms(1) by (simp add: subtensor_def)
  let ?rows = "map (subtensor adj) [0..<n]"
  have mem: "(?ik, subtensor adj ?ik) \<in> set (List.enumerate 0 ?rows)"
    using ik by (simp add: in_set_enumerate_eq)
  have "\<exists>e. efold (\<lambda>acc (ik, i). learn_row tensor_setitem node_vec acc ik i)
               (List.enumerate 0 ?rows) (tf_zeros_like adj) = Inl e"
    by (rule efold_raises [OF mem])
       (use learn_row_raises [OF rowshape rowlen jk] rowel assms(4) in simp)
  then show ?thesis
    using assms(1) by (simp add: learn_adjacencies_def learn_adjacencies_with_def tensor_iter_def)
qed

text \<open>
  C4. A layer built for \<^verbatim>\<open>max_nodes = 3\<close> has weights of shape \<open>[9, 9]\<close>. Given three
  \<open>2 \<times> 2\<close> operators (flattened size 4) it does not raise the assertion error of the
  shape check: the check looks up \<^verbatim>\<open>self.w0\<close>, which the layer does not have, the bare
  \<^verbatim>\<open>except\<close> prints a line, and the pass goes on into the distance transform, where it
  ends with TypeError.
\<close>

theorem Adjacency_call_mismatch_not_signalled:
  "let z = \<lparr>shape = [9, 9], elems = replicate 81 0\<rparr>;
       L = \<lparr>max_nodes = 3, n_features = 2, input_units = 9,
            w0_1 = z, w0_2 = z, w1_1 = z, w1_2 = z, w2_1 = z, w2_2 = z\<rparr>;
       A = \<lparr>shape = [2, 2], elems = [1, 0, 0, 1]\<rparr>;
       node_vec = \<lparr>shape = [2, 2], elems = [0, 0, 3, 4]\<rparr>
   in Adjacency_built L \<and> input_units L \<noteq> 2 * 2
      \<and> Adjacency_call L [A, A, A, node_vec] = (Inl TypeError, L, [''Error 87 layer''])"
  by (simp add: Let_def Adjacency_built_def wf_tensor_def Adjacency_call_def
      Adjacency_shape_asserts_def shape_getitem_def Adjacency_forward_def tf_squeeze_def
      learn_adjacencies_identity_raises)

text \<open>
  C6. When the list passed to \<open>Adjacency_call\<close> holds a number of adjacency operators other
  than 3 before the node features, the call raises AssertionError; it prints nothing,
  and no tensor operation has run.
\<close>

theorem Adjacency_call_wrong_count:
  "length adj_list \<noteq> 3 \<Longrightarrow>
     Adjacency_call self (adj_list @ [node_vec]) = (Inl AssertionError, self, [])"
  by (simp add: Adjacency_call_def)

theorem Adjacency_call_wrong_count_witness:
  "length [\<lparr>shape = [2, 2], elems = [1, 0, 0, 1]\<rparr>, \<lparr>shape = [2, 2], elems = [0, 1, 1, 0]\<rparr>] \<noteq> 3
   \<and> fst (Adjacency_call
        \<lparr>max_nodes = 1, n_features = 2, input_units = 1,
          w0_1 = \<lparr>shape = [1, 1], elems = [0]\<rparr>, w0_2 = \<lparr>shape = [1, 1], elems = [0]\<rparr>,
          w1_1 = \<lparr>shape = [1, 1], elems = [0]\<rparr>, w1_2 = \<lparr>shape = [1, 1], elems = [0]\<rparr>,
          w2_1 = \<lparr>shape = [1, 1], elems = [0]\<rparr>, w2_2 = \<lparr>shape = [1, 1], elems = [0]\<rparr>\<rparr>
        ([\<lparr>shape = [2, 2], elems = [1, 0, 0, 1]\<rparr>, \<lparr>shape = [2, 2], elems = [0, 1, 1, 0]\<rparr>]
          @ [\<lparr>shape = [2, 2], elems = [0, 0, 3, 4]\<rparr>])) = Inl AssertionError"
  using Adjacency_call_wrong_count
    [of "[\<lparr>shape = [2, 2], elems = [1, 0, 0, 1]\<rparr>, \<lparr>shape = [2, 2], elems = [0, 1, 1, 0]\<rparr>]"
        "\<lparr>max_nodes = 1, n_features = 2, input_units = 1,
          w0_1 = \<lparr>shape = [1, 1], elems = [0]\<rparr>, w0_2 = \<lparr>shape = [1, 1], elems = [0]\<rparr>,
          w1_1 = \<lparr>shape = [1, 1], elems = [0]\<rparr>, w1_2 = \<lparr>shape = [1, 1], elems = [0]\<rparr>,
          w2_1 = \<lparr>shape = [1, 1], elems = [0]\<rparr>, w2_2 = \<lparr>shape = [1, 1], elems = [0]\<rparr>\<rparr>"
        "\<lparr>shape = [2, 2], elems = [0, 0, 3, 4]\<rparr>"]
  by simp

text \<open>
  An entry that is neither 0 nor 1 takes neither branch of the loop body: that step
  raises nothing and returns the output matrix as it was, whatever kind of array the
  output is.
\<close>

lemma learn_cell_skips_other_entry:
  "v \<noteq> 0 \<Longrightarrow> v \<noteq> 1 \<Longrightarrow>
     learn_cell setitem node_vec new_adj ik jk \<lparr>shape = [], elems = [v]\<rparr> = Inr new_adj"
  by (intro learn_cell_other) simp_all

lemma upt_0_3: "[0..<3] = [0, 1, 2]"
  by (simp add: upt_rec)

lemma upt_0_9: "[0..<9] = [0, 1, 2, 3, 4, 5, 6, 7, 8]"
  by (simp add: upt_rec)

lemma sqrt_100: "sqrt 100 = 10"
  by (rule real_sqrt_unique) simp_all

text \<open>
  The same loop run on an array that accepts item assignment leaves the entry 2 of the
  squared path graph at 0 and raises nothing.
\<close>

lemma learn_adjacencies_with_ndarray_mixed:
  "learn_adjacencies_with ndarray_setitem \<lparr>shape = [3, 3], elems = [1, 0, 1, 0, 2, 0, 1, 0, 1]\<rparr>
     \<lparr>shape = [3, 2], elems = [0, 0, 3, 4, 6, 8]\<rparr>
     = Inr \<lparr>shape = [3, 3], elems = [0, 0, 10, 0, 0, 0, 10, 0, 0]\<rparr>"
  by (simp add: learn_adjacencies_with_def tensor_iter_def learn_row_def learn_cell_def
      tensor_eq_truth_def ndarray_setitem_def subtensor_def upt_0_2 upt_0_3 upt_0_9
      enumerate_eq_zip tf_zeros_like_def tf_getitem_def tf_subtract_def bcast_op_same_shape
      tf_norm_def sqrt_100)

text \<open>
  C7. The square of the adjacency matrix of the path \<open>0 - 1 - 2\<close> is
  \<open>[[1, 0, 1], [0, 2, 0], [1, 0, 1]]\<close>: node 1 reaches itself by two paths. On this matrix
  the distance transform does not leave the entry 2 at 0 without an error: it raises
  TypeError at the item assignment for the first entry and returns no matrix.
\<close>

theorem learn_adjacencies_mixed_raises:
  "tf_matmul \<lparr>shape = [3, 3], elems = [0, 1, 0, 1, 0, 1, 0, 1, 0]\<rparr>
             \<lparr>shape = [3, 3], elems = [0, 1, 0, 1, 0, 1, 0, 1, 0]\<rparr>
     = Inr \<lparr>shape = [3, 3], elems = [1, 0, 1, 0, 2, 0, 1, 0, 1]\<rparr>
   \<and> learn_adjacencies \<lparr>shape = [3, 3], elems = [1, 0, 1, 0, 2, 0, 1, 0, 1]\<rparr>
         \<lparr>shape = [3, 2], elems = [0, 0, 3, 4, 6, 8]\<rparr> = Inl TypeError"
proof
  show "tf_matmul \<lparr>shape = [3, 3], elems = [0, 1, 0, 1, 0, 1, 0, 1, 0]\<rparr>
                  \<lparr>shape = [3, 3], elems = [0, 1, 0, 1, 0, 1, 0, 1, 0]\<rparr>
          = Inr \<lparr>shape = [3, 3], elems = [1, 0, 1, 0, 2, 0, 1, 0, 1]\<rparr>"
    by (simp add: tf_matmul_2d [of _ 3 3 _ 3] upt_0_9 upt_0_3 dot_entry_def)
  show "learn_adjacencies \<lparr>shape = [3, 3], elems = [1, 0, 1, 0, 2, 0, 1, 0, 1]\<rparr>
          \<lparr>shape = [3, 2], elems = [0, 0, 3, 4, 6, 8]\<rparr> = Inl TypeError"
    by (simp add: learn_adjacencies_def learn_adjacencies_with_def tensor_iter_def
        learn_row_def learn_cell_def tensor_eq_truth_def tensor_setitem_def subtensor_def
        upt_0_3 enumerate_eq_zip tf_zeros_like_def tf_getitem_def tf_subtract_def
        bcast_op_same_shape)
qed

section \<open>Forward passes and the layer objects\<close>

text \<open>
  C10. No \<^verbatim>\<open>call\<close> assigns to an attribute of its layer: the object that
  \<open>GraphOperator_call\<close> leaves is the one it was given, and after \<open>Adjacency_call\<close> and
  \<open>GNN_call\<close> every weight tensor is the one before the call, whatever the inputs and
  whether the call returns or raises.
\<close>

theorem call_keeps_weights:
  "snd (GraphOperator_call g adj) = g
   \<and> map (\<lambda>w. w (fst (snd (Adjacency_call a inputs)))) [w0_1, w0_2, w1_1, w1_2, w2_1, w2_2]
       = map (\<lambda>w. w a) [w0_1, w0_2, w1_1, w1_2, w2_1, w2_2]
   \<and> fst (snd (Adjacency_call a inputs)) = a
   \<and> map (\<lambda>w. w (snd (GNN_call n xs))) [w0, w1, w2] = map (\<lambda>w. w n) [w0, w1, w2]
   \<and> snd (GNN_call n xs) = n"
  by (auto simp: GraphOperator_call_def Adjacency_call_def GNN_call_def Let_def split: list.splits)

end
